theory Spec2Isabelle
  imports Main "HOL-Library.Word"
begin

section \<open>Toolkit values used by Node.cpp\<close>

text \<open>
  \<^verbatim>\<open>Node.cpp\<close> moves three kinds of toolkit values around: JSON values
  (\<^verbatim>\<open>QJsonObject\<close>, \<^verbatim>\<open>QJsonValue\<close>), UUIDs (\<^verbatim>\<open>QUuid\<close>) and points
  (\<^verbatim>\<open>QPointF\<close>). Their classes belong to the host toolkit and are not part of the
  repository's sources. A \<^verbatim>\<open>double\<close> is only stored and copied by the node, never
  computed with, so it is a type parameter \<open>'r\<close> whose \<open>0\<close> is the \<^verbatim>\<open>0.0\<close> the
  toolkit falls back to. A \<^verbatim>\<open>QString\<close> is a \<open>string\<close>; the null \<^verbatim>\<open>QString\<close> is
  the empty one.
\<close>

subsection \<open>JSON\<close>

datatype 'r QJsonValue =
    JNull
  | JBool bool
  | JDouble 'r
  | JString string
  | JArray "'r QJsonValue list"
  | JObject "(string \<times> 'r QJsonValue) list"
  | JUndefined

type_synonym 'r QJsonObject = "(string \<times> 'r QJsonValue) list"

text \<open>
  Modelled from the spec: \<^verbatim>\<open>QJsonObject::operator[](key) const\<close> of the toolkit, not
  under src. Reading a key that the object does not hold gives the undefined value.
\<close>

definition jsonValue :: "'r QJsonObject \<Rightarrow> string \<Rightarrow> 'r QJsonValue" where
  "jsonValue obj key = (case map_of obj key of None \<Rightarrow> JUndefined | Some v \<Rightarrow> v)"

text \<open>
  Modelled from the spec: the assignment \<^verbatim>\<open>obj[key] = v\<close> of the toolkit, not under
  src. It replaces the value of a key the object holds and adds the key otherwise; an
  object holds a key once.
\<close>

fun jsonInsert :: "string \<Rightarrow> 'r QJsonValue \<Rightarrow> 'r QJsonObject \<Rightarrow> 'r QJsonObject" where
  "jsonInsert k v [] = [(k, v)]"
| "jsonInsert k v ((k', v') # obj) =
     (if k = k' then (k, v) # obj else (k', v') # jsonInsert k v obj)"

text \<open>
  Modelled from the spec: \<^verbatim>\<open>QJsonValue::toString\<close>, \<^verbatim>\<open>toDouble\<close> and \<^verbatim>\<open>toObject\<close> of
  the toolkit, not under src. "Malformed persisted JSON fields silently coerce to default
  values": a value of another type converts to the null string, to \<^verbatim>\<open>0.0\<close> and to the
  empty object.
\<close>

fun toString :: "'r QJsonValue \<Rightarrow> string" where
  "toString (JString s) = s"
| "toString _ = []"

fun toDouble :: "('r::zero) QJsonValue \<Rightarrow> 'r" where
  "toDouble (JDouble d) = d"
| "toDouble _ = 0"

fun toObject :: "'r QJsonValue \<Rightarrow> 'r QJsonObject" where
  "toObject (JObject obj) = obj"
| "toObject _ = []"

subsection \<open>UUIDs\<close>

text \<open>
  Modelled from the spec: \<^verbatim>\<open>QUuid\<close> of the toolkit, not under src. A UUID has the four
  data fields of the toolkit's class (the eight bytes of the last one taken together, most
  significant first); the null ("empty") UUID has all of them zero.
\<close>

record QUuid =
  data1 :: "32 word"
  data2 :: "16 word"
  data3 :: "16 word"
  data4 :: "64 word"

definition QUuid_null :: QUuid where
  "QUuid_null = \<lparr>data1 = 0, data2 = 0, data3 = 0, data4 = 0\<rparr>"

text \<open>
  Modelled from the spec: the hexadecimal digits of the text of a UUID, written in lower
  case and read in either case.
\<close>

definition toHexDigit :: "nat \<Rightarrow> char" where
  "toHexDigit v = ''0123456789abcdef'' ! v"

definition fromHex :: "char \<Rightarrow> nat option" where
  "fromHex ch =
     (let c = (of_char ch :: nat) in
      if 48 \<le> c \<and> c \<le> 57 then Some (c - 48)
      else if 65 \<le> c \<and> c \<le> 70 then Some (c - 55)
      else if 97 \<le> c \<and> c \<le> 102 then Some (c - 87)
      else None)"

text \<open>\<open>toHex n k\<close>: the lowest \<open>n\<close> hexadecimal digits of \<open>k\<close>, most significant first.\<close>

fun toHex :: "nat \<Rightarrow> nat \<Rightarrow> string" where
  "toHex 0 k = []"
| "toHex (Suc n) k = toHexDigit ((k div 16 ^ n) mod 16) # toHex n k"

text \<open>
  \<open>hexField n acc s\<close> reads exactly \<open>n\<close> hexadecimal digits from the front of \<open>s\<close>
  and gives their value (on top of \<open>acc\<close>) with the rest of the text.
\<close>

fun hexField :: "nat \<Rightarrow> nat \<Rightarrow> string \<Rightarrow> (nat \<times> string) option" where
  "hexField 0 acc s = Some (acc, s)"
| "hexField (Suc n) acc [] = None"
| "hexField (Suc n) acc (c # cs) =
     (case fromHex c of None \<Rightarrow> None | Some v \<Rightarrow> hexField n (acc * 16 + v) cs)"

fun dash :: "string \<Rightarrow> string option" where
  "dash [] = None"
| "dash (c # cs) = (if c = CHR ''-'' then Some cs else None)"

text \<open>
  Modelled from the spec: \<^verbatim>\<open>QUuid::toString\<close>, the "string UUID" of the persisted
  format: five groups of 8, 4, 4, 4 and 12 hexadecimal digits between braces.
\<close>

definition QUuid_toString :: "QUuid \<Rightarrow> string" where
  "QUuid_toString u =
     ''{'' @ toHex 8 (unat (data1 u)) @ ''-'' @ toHex 4 (unat (data2 u)) @ ''-''
      @ toHex 4 (unat (data3 u)) @ ''-'' @ toHex 4 (unat (data4 u) div 16 ^ 12) @ ''-''
      @ toHex 12 (unat (data4 u)) @ ''}''"

text \<open>
  Modelled from the spec: the parser behind the constructor \<^verbatim>\<open>QUuid(QString)\<close>. The
  opening brace is optional; anything that is not the five groups of digits with their
  dashes is malformed.
\<close>

definition parseUuid :: "string \<Rightarrow> QUuid option" where
  "parseUuid text =
     (let s = (case text of [] \<Rightarrow> text | c # cs \<Rightarrow> (if c = CHR ''{'' then cs else text)) in
      Option.bind (hexField 8 0 s) (\<lambda>(d1, s1).
      Option.bind (dash s1) (\<lambda>s1'.
      Option.bind (hexField 4 0 s1') (\<lambda>(d2, s2).
      Option.bind (dash s2) (\<lambda>s2'.
      Option.bind (hexField 4 0 s2') (\<lambda>(d3, s3).
      Option.bind (dash s3) (\<lambda>s3'.
      Option.bind (hexField 4 0 s3') (\<lambda>(d4a, s4).
      Option.bind (dash s4) (\<lambda>s4'.
      Option.bind (hexField 12 d4a s4') (\<lambda>(d4, s5).
        Some \<lparr>data1 = of_nat d1, data2 = of_nat d2, data3 = of_nat d3,
              data4 = of_nat d4\<rparr>))))))))))"

text \<open>
  Modelled from the spec: the constructor \<^verbatim>\<open>QUuid(QString)\<close>. A malformed text gives
  the null UUID.
\<close>

definition QUuid_fromString :: "string \<Rightarrow> QUuid" where
  "QUuid_fromString text = (case parseUuid text of None \<Rightarrow> QUuid_null | Some u \<Rightarrow> u)"

section \<open>The node and its collaborators\<close>

text \<open>
  \<^verbatim>\<open>Node.cpp\<close> is glue between a data model, a node state, a geometry cache, a
  graphics object and the connections. Only \<^verbatim>\<open>Node.cpp\<close> is under src, so the model
  keeps what the node itself owns as state (its identifier, its node state, the pointer to
  its graphics object with the position stored there) and lists, in the order of the
  source, the calls by which the node acts on a collaborator or fetches the output data of
  a model, each as a \<open>Call\<close>. What a collaborator answers to a query is read from an
  environment \<open>Env\<close>. Signals that a collaborator emits while it is called are outside
  the model.
\<close>

text \<open>The port types that \<^verbatim>\<open>Node.cpp\<close> names.\<close>

datatype PortType = In | Out

type_synonym PortIndex = int

type_synonym 'r QPointF = "'r \<times> 'r"

type_synonym ConnectionPtr = nat

type_synonym NodePtr = nat

text \<open>
  What \<^verbatim>\<open>Node.cpp\<close> reads from a \<^verbatim>\<open>Connection\<close>: the node at one of its ends (a
  pointer, possibly null), the port index there, and the type converter (a function object,
  possibly null).
\<close>

record 'd Connection =
  getNode :: "PortType \<Rightarrow> NodePtr option"
  getPortIndex :: "PortType \<Rightarrow> PortIndex"
  getTypeConverter :: "('d \<Rightarrow> 'd) option"

text \<open>\<^verbatim>\<open>NodeState::ConnectionPtrSet\<close>: the connections at one port, as they are enumerated.\<close>

type_synonym ConnectionPtrSet = "(QUuid \<times> ConnectionPtr) list"

record ('d, 'r) Env =
  nPorts :: "PortType \<Rightarrow> int"
  outData :: "PortIndex \<Rightarrow> 'd"
  modelSave :: "'r QJsonObject"
  embeddedWidget :: bool
  connectionAt :: "ConnectionPtr \<Rightarrow> 'd Connection"
  nodeOutData :: "NodePtr \<Rightarrow> PortIndex \<Rightarrow> 'd"
  sceneToNode :: "'r QPointF \<Rightarrow> 'r QPointF"

text \<open>
  The fields of \<open>Env\<close>: \<open>nPorts\<close>, \<open>outData\<close>, \<open>modelSave\<close> and \<open>embeddedWidget\<close>
  (is there a widget?) are the answers of the node's own data model, \<open>nPorts\<close> as the
  \<^verbatim>\<open>int\<close> that \<^verbatim>\<open>onPortCountChanged\<close> assigns it to; \<open>connectionAt\<close>
  dereferences a connection pointer; \<open>nodeOutData p i\<close> is
  \<^verbatim>\<open>p->nodeDataModel()->outData(i)\<close> for another node \<open>p\<close>; \<open>sceneToNode\<close> is the
  inverted scene transform of the graphics object applied to a point.
\<close>

datatype ('d, 'r) Call =
    Model_outData PortIndex
  | Upstream_outData NodePtr PortIndex
  | Model_setInData "'d list" PortIndex
  | Model_restore "'r QJsonObject"
  | Widget_adjustSize
  | Graphics_setPos "'r QPointF"
  | Graphics_setGeometryChanged
  | Graphics_update
  | Graphics_moveConnections
  | Geometry_recalculateSize
  | Geometry_setDraggingPosition "'r QPointF"
  | Geometry_updatePortCount
  | Connection_propagateData ConnectionPtr 'd
  | ConnectionGraphics_move ConnectionPtr
  | Emit_killConnection ConnectionPtr

text \<open>
  Undefined behaviour of the source is an error value: a call through the null graphics
  object pointer, a call through a null node pointer, an index outside a vector.
\<close>

datatype error = NullGraphicsObject | NullNode | IndexOutOfRange

subsection \<open>NodeState\<close>

datatype ReactToConnectionState = REACTING | NOT_REACTING

text \<open>
  Modelled from the spec: \<^verbatim>\<open>NodeState\<close>, not under src: a "per-node table of active
  connections keyed by port type and index, plus a reacting flag/type". An argument that
  \<^verbatim>\<open>setReaction\<close> is called without (its default) is \<open>None\<close>.
\<close>

record 't NodeState =
  inConnections :: "ConnectionPtrSet list"
  outConnections :: "ConnectionPtrSet list"
  reaction :: ReactToConnectionState
  reactingPortType :: "PortType option"
  reactingDataType :: "'t option"

text \<open>
  Modelled from the spec: \<^verbatim>\<open>NodeState::getEntries\<close>, not under src: the table of one
  port type, a vector with one set of connections for each port index.
\<close>

definition getEntries :: "'t NodeState \<Rightarrow> PortType \<Rightarrow> ConnectionPtrSet list" where
  "getEntries st portType =
     (case portType of In \<Rightarrow> inConnections st | Out \<Rightarrow> outConnections st)"

text \<open>
  Modelled from the spec: \<^verbatim>\<open>NodeState::connections\<close>, not under src: the connections
  "keyed by port type and index", a copy of the table's entry. An index outside the vector
  is undefined behaviour.
\<close>

definition connections :: "'t NodeState \<Rightarrow> PortType \<Rightarrow> PortIndex \<Rightarrow> error + ConnectionPtrSet" where
  "connections st portType portIndex =
     (let entries = getEntries st portType in
      if 0 \<le> portIndex \<and> portIndex < int (length entries)
      then Inr (entries ! nat portIndex) else Inl IndexOutOfRange)"

text \<open>
  Modelled from the spec: \<^verbatim>\<open>NodeState::setReaction\<close>, not under src: it stores the
  "reacting flag/type".
\<close>

definition setReaction ::
  "ReactToConnectionState \<Rightarrow> PortType option \<Rightarrow> 't option \<Rightarrow> 't NodeState \<Rightarrow> 't NodeState" where
  "setReaction r portType dataType st =
     st\<lparr>reaction := r, reactingPortType := portType, reactingDataType := dataType\<rparr>"

text \<open>
  Modelled from the spec: \<^verbatim>\<open>NodeState::updatePortCount\<close>, not under src: the table gets
  one entry for each port that the model has: the entries of the port indices that are no
  more are dropped, those of new port indices are empty. \<open>resize\<close> is the vector's.
\<close>

definition resize :: "nat \<Rightarrow> ConnectionPtrSet list \<Rightarrow> ConnectionPtrSet list" where
  "resize k entries = take k entries @ replicate (k - length entries) []"

definition updatePortCount :: "int \<Rightarrow> int \<Rightarrow> 't NodeState \<Rightarrow> 't NodeState" where
  "updatePortCount nIn nOut st =
     st\<lparr>inConnections := resize (nat nIn) (inConnections st),
        outConnections := resize (nat nOut) (outConnections st)\<rparr>"

text \<open>
  Modelled from the spec: the constructor \<^verbatim>\<open>NodeState(model)\<close>, not under src: an empty
  table with an entry for each port of the model, not reacting.
\<close>

definition NodeState_new :: "('d, 'r) Env \<Rightarrow> 't NodeState" where
  "NodeState_new E =
     \<lparr>inConnections = replicate (nat (nPorts E In)) [],
      outConnections = replicate (nat (nPorts E Out)) [],
      reaction = NOT_REACTING, reactingPortType = None, reactingDataType = None\<rparr>"

subsection \<open>Node\<close>

text \<open>
  Of the graphics object the node reads and writes the position: \<^verbatim>\<open>pos()\<close> is what
  \<^verbatim>\<open>setPos\<close> stored.
\<close>

record 'r NodeGraphicsObject =
  pos :: "'r QPointF"

record ('r, 't) Node =
  uid :: QUuid
  nodeState :: "'t NodeState"
  nodeGraphicsObject :: "'r NodeGraphicsObject option"

text \<open>
  \<^verbatim>\<open>Node::Node\<close>. The identifier is what \<^verbatim>\<open>QUuid::createUuid()\<close> returned, taken as
  an argument; the graphics object pointer starts null. The constructor also connects the
  model's signals \<^verbatim>\<open>dataUpdated\<close> and \<^verbatim>\<open>embeddedWidgetSizeUpdated\<close> to
  \<^verbatim>\<open>onDataUpdated\<close> and \<^verbatim>\<open>onNodeSizeUpdated\<close> (the connection of
  \<^verbatim>\<open>portCountChanged\<close> is commented out); who calls the slots is outside the model.
\<close>

definition Node_new :: "QUuid \<Rightarrow> ('d, 'r) Env \<Rightarrow> ('d, 'r) Call list \<times> ('r, 't) Node" where
  "Node_new createUuid E =
     ([Geometry_recalculateSize],
      \<lparr>uid = createUuid, nodeState = NodeState_new E, nodeGraphicsObject = None\<rparr>)"

text \<open>
  \<^verbatim>\<open>Node::save\<close> (\<^verbatim>\<open>const\<close>). The \<open>id\<close> and \<open>model\<close> fields are written before the
  graphics object is asked for its position.
\<close>

definition Node_save :: "('d, 'r) Env \<Rightarrow> ('r, 't) Node \<Rightarrow> error + 'r QJsonObject" where
  "Node_save E n =
     (let nodeJson = jsonInsert ''id'' (JString (QUuid_toString (uid n))) [];
          nodeJson = jsonInsert ''model'' (JObject (modelSave E)) nodeJson
      in case nodeGraphicsObject n of
           None \<Rightarrow> Inl NullGraphicsObject
         | Some g \<Rightarrow>
             (let obj = jsonInsert ''x'' (JDouble (fst (pos g))) [];
                  obj = jsonInsert ''y'' (JDouble (snd (pos g))) obj
              in Inr (jsonInsert ''position'' (JObject obj) nodeJson)))"

text \<open>
  \<^verbatim>\<open>Node::restore\<close>: the id is assigned, the position is sent to the graphics object
  (which stores it), and the data model is told to restore itself.
\<close>

definition Node_restore ::
  "('r::zero) QJsonObject \<Rightarrow> ('r, 't) Node \<Rightarrow> error + (('d, 'r) Call list \<times> ('r, 't) Node)" where
  "Node_restore json n =
     (let uid' = QUuid_fromString (toString (jsonValue json ''id''));
          positionJson = toObject (jsonValue json ''position'');
          point = (toDouble (jsonValue positionJson ''x''), toDouble (jsonValue positionJson ''y''))
      in case nodeGraphicsObject n of
           None \<Rightarrow> Inl NullGraphicsObject
         | Some g \<Rightarrow>
             Inr ([Graphics_setPos point, Model_restore (toObject (jsonValue json ''model''))],
                  n\<lparr>uid := uid', nodeGraphicsObject := Some (g\<lparr>pos := point\<rparr>)\<rparr>))"


text \<open>
  \<^verbatim>\<open>Node::reactToPossibleConnection\<close> and \<^verbatim>\<open>Node::resetReactionToConnection\<close>. The
  first asks the graphics object for its scene transform before anything else; the second
  sets the reaction before it calls \<^verbatim>\<open>update()\<close>.
\<close>

definition reactToPossibleConnection ::
  "('d, 'r) Env \<Rightarrow> PortType \<Rightarrow> 't \<Rightarrow> 'r QPointF \<Rightarrow> ('r, 't) Node
     \<Rightarrow> error + (('d, 'r) Call list \<times> ('r, 't) Node)" where
  "reactToPossibleConnection E portType dataType scenePoint n =
     (case nodeGraphicsObject n of
        None \<Rightarrow> Inl NullGraphicsObject
      | Some g \<Rightarrow>
          (let nodePoint = sceneToNode E scenePoint
           in Inr ([Geometry_setDraggingPosition nodePoint, Graphics_update],
                   n\<lparr>nodeState :=
                       setReaction REACTING (Some portType) (Some dataType)
                         (nodeState n)\<rparr>)))"

definition resetReactionToConnection ::
  "('r, 't) Node \<Rightarrow> error + (('d, 'r) Call list \<times> ('r, 't) Node)" where
  "resetReactionToConnection n =
     (let n' = n\<lparr>nodeState := setReaction NOT_REACTING None None (nodeState n)\<rparr>
      in case nodeGraphicsObject n' of
           None \<Rightarrow> Inl NullGraphicsObject
         | Some g \<Rightarrow> Inr ([Graphics_update], n'))"

text \<open>\<^verbatim>\<open>Node::setGraphicsObject\<close> and \<^verbatim>\<open>Node::recalculateVisuals\<close> (\<^verbatim>\<open>const\<close>).\<close>

definition setGraphicsObject ::
  "'r NodeGraphicsObject option \<Rightarrow> ('r, 't) Node \<Rightarrow> ('d, 'r) Call list \<times> ('r, 't) Node" where
  "setGraphicsObject graphics n =
     ([Geometry_recalculateSize], n\<lparr>nodeGraphicsObject := graphics\<rparr>)"

definition recalculateVisuals :: "('r, 't) Node \<Rightarrow> error + ('d, 'r) Call list" where
  "recalculateVisuals n =
     (case nodeGraphicsObject n of
        None \<Rightarrow> Inl NullGraphicsObject
      | Some g \<Rightarrow>
          Inr [Graphics_setGeometryChanged, Geometry_recalculateSize, Graphics_update,
               Graphics_moveConnections])"

text \<open>
  The loop of \<^verbatim>\<open>Node::propagateData\<close> over the connections of the port: the calls it
  makes and the vector \<^verbatim>\<open>nodeData\<close> it fills, in the order of the enumeration.
\<close>

fun gatherNodeData ::
  "('d, 'r) Env \<Rightarrow> ConnectionPtrSet \<Rightarrow> error + (('d, 'r) Call list \<times> 'd list)" where
  "gatherNodeData E [] = Inr ([], [])"
| "gatherNodeData E (connection # rest) =
     (let c = connectionAt E (snd connection) in
      case getNode c Out of
        None \<Rightarrow> Inl NullNode
      | Some outNode \<Rightarrow>
          (let outNodeIndex = getPortIndex c Out;
               upstreamData = nodeOutData E outNode outNodeIndex;
               converted = (case getTypeConverter c of
                              None \<Rightarrow> upstreamData
                            | Some converter \<Rightarrow> converter upstreamData)
           in case gatherNodeData E rest of
                Inl e \<Rightarrow> Inl e
              | Inr (calls, nodeData) \<Rightarrow>
                  Inr (Upstream_outData outNode outNodeIndex # calls, converted # nodeData)))"

text \<open>
  \<^verbatim>\<open>Node::propagateData\<close> (\<^verbatim>\<open>const\<close>): the loop, \<^verbatim>\<open>setInData\<close>, the four calls
  written in line, and \<^verbatim>\<open>recalculateVisuals\<close>.
\<close>

definition propagateData ::
  "('d, 'r) Env \<Rightarrow> PortIndex \<Rightarrow> ('r, 't) Node \<Rightarrow> error + ('d, 'r) Call list" where
  "propagateData E inPortIndex n =
     (case connections (nodeState n) In inPortIndex of
        Inl e \<Rightarrow> Inl e
      | Inr conns \<Rightarrow>
         (case gatherNodeData E conns of
            Inl e \<Rightarrow> Inl e
          | Inr (calls, nodeData) \<Rightarrow>
             (case nodeGraphicsObject n of
                None \<Rightarrow> Inl NullGraphicsObject
              | Some g \<Rightarrow>
                 (case recalculateVisuals n of
                    Inl e \<Rightarrow> Inl e
                  | Inr visuals \<Rightarrow>
                      Inr (calls @ [Model_setInData nodeData inPortIndex,
                             Graphics_setGeometryChanged, Geometry_recalculateSize,
                             Graphics_update, Graphics_moveConnections] @ visuals)))))"

text \<open>\<^verbatim>\<open>Node::onDataUpdated\<close> and \<^verbatim>\<open>Node::onNodeSizeUpdated\<close>.\<close>

definition onDataUpdated ::
  "('d, 'r) Env \<Rightarrow> PortIndex \<Rightarrow> ('r, 't) Node \<Rightarrow> error + (('d, 'r) Call list \<times> ('r, 't) Node)" where
  "onDataUpdated E index n =
     (let nodeData = outData E index in
      case connections (nodeState n) Out index of
        Inl e \<Rightarrow> Inl e
      | Inr conns \<Rightarrow>
          Inr (Model_outData index # map (\<lambda>c. Connection_propagateData (snd c) nodeData) conns,
               n))"

definition onNodeSizeUpdated ::
  "('d, 'r) Env \<Rightarrow> ('r, 't) Node \<Rightarrow> ('d, 'r) Call list \<times> ('r, 't) Node" where
  "onNodeSizeUpdated E n =
     ((if embeddedWidget E then [Widget_adjustSize] else [])
      @ [Geometry_recalculateSize]
      @ concat (map (\<lambda>portType.
           concat (map (\<lambda>conn_set. map (\<lambda>pair. ConnectionGraphics_move (snd pair)) conn_set)
             (getEntries (nodeState n) portType))) [In, Out]),
      n)"

text \<open>
  The inner loops of \<^verbatim>\<open>Node::onPortCountChanged\<close>: \<open>index\<close> runs from the new count up
  to the old one, the size of \<open>entries\<close>.
\<close>

function killConnections :: "ConnectionPtrSet list \<Rightarrow> PortIndex \<Rightarrow> error + ('d, 'r) Call list" where
  "killConnections entries index =
     (if index < int (length entries)
      then (if index < 0 then Inl IndexOutOfRange
            else (case killConnections entries (index + 1) of
                    Inl e \<Rightarrow> Inl e
                  | Inr calls \<Rightarrow>
                      Inr (map (\<lambda>c. Emit_killConnection (snd c)) (entries ! nat index) @ calls)))
      else Inr [])"
  by pat_completeness auto
termination
  by (relation "measure (\<lambda>(entries, index). nat (int (length entries) - index))") auto

declare killConnections.simps [simp del]

text \<open>The outer loop over the port types.\<close>

fun killForPortTypes ::
  "('d, 'r) Env \<Rightarrow> 't NodeState \<Rightarrow> PortType list \<Rightarrow> error + ('d, 'r) Call list" where
  "killForPortTypes E st [] = Inr []"
| "killForPortTypes E st (portType # portTypes) =
     (let entries = getEntries st portType;
          newCount = nPorts E portType
      in case killConnections entries newCount of
           Inl e \<Rightarrow> Inl e
         | Inr calls \<Rightarrow>
             (case killForPortTypes E st portTypes of
                Inl e \<Rightarrow> Inl e
              | Inr calls' \<Rightarrow> Inr (calls @ calls')))"

text \<open>
  \<^verbatim>\<open>Node::onPortCountChanged\<close>. What the slots connected to \<^verbatim>\<open>killConnection\<close> do
  while the loops run is outside the model.
\<close>

definition onPortCountChanged ::
  "('d, 'r) Env \<Rightarrow> ('r, 't) Node \<Rightarrow> error + (('d, 'r) Call list \<times> ('r, 't) Node)" where
  "onPortCountChanged E n =
     (case killForPortTypes E (nodeState n) [In, Out] of
        Inl e \<Rightarrow> Inl e
      | Inr kills \<Rightarrow>
          (let n' = n\<lparr>nodeState :=
                       updatePortCount (nPorts E In) (nPorts E Out) (nodeState n)\<rparr>
           in case recalculateVisuals n' of
                Inl e \<Rightarrow> Inl e
              | Inr visuals \<Rightarrow> Inr (kills @ [Geometry_updatePortCount] @ visuals, n')))"

subsection \<open>The geometry cache\<close>

text \<open>
  The spec's invariant speaks of a cached visual geometry that must be recalculated
  whenever the port count, the data or the embedded widget size changes. Read on a list of
  calls: the cache is stale when one of the calls that change these
  (\<^verbatim>\<open>setInData\<close>, \<^verbatim>\<open>adjustSize\<close>, \<^verbatim>\<open>updatePortCount\<close>) came after the last
  \<^verbatim>\<open>recalculateSize\<close>. \<open>geometryStale b calls\<close> is the staleness after \<open>calls\<close> of a
  cache whose staleness before them was \<open>b\<close>.
\<close>

fun geometryStale :: "bool \<Rightarrow> ('d, 'r) Call list \<Rightarrow> bool" where
  "geometryStale b [] = b"
| "geometryStale b (Geometry_recalculateSize # calls) = geometryStale False calls"
| "geometryStale b (Model_setInData nodeData i # calls) = geometryStale True calls"
| "geometryStale b (Widget_adjustSize # calls) = geometryStale True calls"
| "geometryStale b (Geometry_updatePortCount # calls) = geometryStale True calls"
| "geometryStale b (_ # calls) = geometryStale b calls"

text \<open>
  The value that \<^verbatim>\<open>Node::propagateData\<close> is to collect for one connection: the output
  of the node at the connection's \<^verbatim>\<open>Out\<close> end, at the connection's \<^verbatim>\<open>Out\<close> port index,
  through the connection's converter when there is one.
\<close>

definition upstreamValue :: "('d, 'r) Env \<Rightarrow> QUuid \<times> ConnectionPtr \<Rightarrow> 'd" where
  "upstreamValue E connection =
     (let c = connectionAt E (snd connection);
          v = nodeOutData E (the (getNode c Out)) (getPortIndex c Out)
      in case getTypeConverter c of None \<Rightarrow> v | Some converter \<Rightarrow> converter v)"

definition upstreamCall :: "('d, 'r) Env \<Rightarrow> QUuid \<times> ConnectionPtr \<Rightarrow> ('d, 'r) Call" where
  "upstreamCall E connection =
     (let c = connectionAt E (snd connection)
      in Upstream_outData (the (getNode c Out)) (getPortIndex c Out))"

text \<open>The four calls of \<^verbatim>\<open>Node::recalculateVisuals\<close>.\<close>

definition visualsCascade :: "('d, 'r) Call list" where
  "visualsCascade =
     [Graphics_setGeometryChanged, Geometry_recalculateSize, Graphics_update,
      Graphics_moveConnections]"

text \<open>
  What a persisted JSON object says about a node, field by field: a field that is there
  and well formed gives its value, everything else the default (the null UUID, \<open>0\<close>, the
  empty object).
\<close>

definition persistedId :: "'r QJsonObject \<Rightarrow> QUuid" where
  "persistedId json =
     (case map_of json ''id'' of
        Some (JString s) \<Rightarrow> (case parseUuid s of Some u \<Rightarrow> u | None \<Rightarrow> QUuid_null)
      | _ \<Rightarrow> QUuid_null)"

definition persistedCoordinate :: "('r::zero) QJsonObject \<Rightarrow> string \<Rightarrow> 'r" where
  "persistedCoordinate json axis =
     (case map_of json ''position'' of
        Some (JObject position) \<Rightarrow>
          (case map_of position axis of Some (JDouble d) \<Rightarrow> d | _ \<Rightarrow> 0)
      | _ \<Rightarrow> 0)"

definition persistedModel :: "'r QJsonObject \<Rightarrow> 'r QJsonObject" where
  "persistedModel json =
     (case map_of json ''model'' of Some (JObject model) \<Rightarrow> model | _ \<Rightarrow> [])"

text \<open>
  The connections that a node has registered, for one port type, at the port indices that
  the data model no longer has: those at index \<open>nPorts\<close> and above, each as often as it
  is registered there, in the order of the table.
\<close>

definition droppedConnections ::
  "('d, 'r) Env \<Rightarrow> 't NodeState \<Rightarrow> PortType \<Rightarrow> ConnectionPtr list" where
  "droppedConnections E st portType =
     map snd (concat (drop (nat (nPorts E portType)) (getEntries st portType)))"

section \<open>An example node\<close>

text \<open>
  A node with two input and two output ports, data and coordinates that are integers, and
  an environment to run it in: the theorems below are instantiated at these values.
\<close>

definition exampleUuid :: QUuid where
  "exampleUuid =
     \<lparr>data1 = 0x1234abcd, data2 = 0xff, data3 = 0x4a5b, data4 = 0x8899aabbccddeeff\<rparr>"

definition exampleConnection :: "ConnectionPtr \<Rightarrow> int Connection" where
  "exampleConnection p =
     \<lparr>getNode = (\<lambda>portType. if p = 2 then None else Some (10 + p)),
      getPortIndex = (\<lambda>portType. case portType of In \<Rightarrow> 0 | Out \<Rightarrow> int p),
      getTypeConverter = (if p = 1 then Some (\<lambda>d. d + 100) else None)\<rparr>"

definition exampleEnv :: "(int, int) Env" where
  "exampleEnv =
     \<lparr>nPorts = (\<lambda>portType. 1),
      outData = (\<lambda>i. 40 + i),
      modelSave = [(''name'', JString ''adder'')],
      embeddedWidget = True,
      connectionAt = exampleConnection,
      nodeOutData = (\<lambda>p i. int p + i),
      sceneToNode = (\<lambda>p. (fst p - 5, snd p - 5))\<rparr>"

definition exampleState :: "string NodeState" where
  "exampleState =
     \<lparr>inConnections = [[(QUuid_null, 0), (exampleUuid, 1)], [(exampleUuid, 3)]],
      outConnections = [[(QUuid_null, 4)], [(exampleUuid, 5), (QUuid_null, 6)]],
      reaction = NOT_REACTING, reactingPortType = None, reactingDataType = None\<rparr>"

definition exampleNode :: "(int, string) Node" where
  "exampleNode =
     \<lparr>uid = exampleUuid, nodeState = exampleState,
      nodeGraphicsObject = Some \<lparr>pos = (3, 4)\<rparr>\<rparr>"

definition detachedNode :: "(int, string) Node" where
  "detachedNode = exampleNode\<lparr>nodeGraphicsObject := None\<rparr>"

text \<open>The example node with a connection at its first input port that has no node at its
  \<^verbatim>\<open>Out\<close> end (connection 2 of the example environment).\<close>

definition danglingNode :: "(int, string) Node" where
  "danglingNode =
     exampleNode\<lparr>nodeState := exampleState\<lparr>inConnections := [[(QUuid_null, 2)]]\<rparr>\<rparr>"

text \<open>A persisted node whose \<open>id\<close> field is the text of a UUID, and that UUID.\<close>

definition persistedUuid :: QUuid where
  "persistedUuid = \<lparr>data1 = 0x1, data2 = 0x2, data3 = 0x3, data4 = 0x4000000000005\<rparr>"

definition persistedNode :: "int QJsonObject" where
  "persistedNode =
     [(''id'', JString ''{00000001-0002-0003-0004-000000000005}''),
      (''model'', JObject [(''name'', JString ''adder'')]),
      (''position'', JObject [(''x'', JDouble 30), (''y'', JDouble 40)])]"

section \<open>Properties of the toolkit values\<close>

lemma fromHex_toHexDigit: "v < 16 \<Longrightarrow> fromHex (toHexDigit v) = Some v"
proof -
  have "\<forall>v \<in> set [0..<16]. fromHex (toHexDigit v) = Some v"
    by (simp add: fromHex_def toHexDigit_def upt_rec)
  then show "v < 16 \<Longrightarrow> fromHex (toHexDigit v) = Some v" by simp
qed

lemma hexField_toHex:
  "hexField n acc (toHex n k @ rest) = Some (acc * 16 ^ n + k mod 16 ^ n, rest)"
proof (induction n arbitrary: acc)
  case 0
  show ?case by simp
next
  case (Suc n)
  have d: "(k div 16 ^ n) mod 16 < 16" by simp
  have e: "k mod (16 * 16 ^ n) = 16 ^ n * (k div 16 ^ n mod 16) + k mod 16 ^ n"
    using mod_mult2_eq [of k "16 ^ n" 16] by (simp add: mult.commute)
  show ?case
    using Suc.IH [of "acc * 16 + (k div 16 ^ n) mod 16"]
    by (simp add: fromHex_toHexDigit [OF d] e algebra_simps)
qed

lemma parseUuid_groups:
  assumes "a < 16 ^ 8" "b < 16 ^ 4" "c < 16 ^ 4" "dh < 16 ^ 4"
  shows "parseUuid (''{'' @ toHex 8 a @ ''-'' @ toHex 4 b @ ''-'' @ toHex 4 c @ ''-''
            @ toHex 4 dh @ ''-'' @ toHex 12 dl @ ''}'')
         = Some \<lparr>data1 = of_nat a, data2 = of_nat b, data3 = of_nat c,
                 data4 = of_nat (dh * 16 ^ 12 + dl mod 16 ^ 12)\<rparr>"
proof -
  have m: "a mod 16 ^ 8 = a" "b mod 16 ^ 4 = b" "c mod 16 ^ 4 = c" "dh mod 16 ^ 4 = dh"
    using assms by simp_all
  show ?thesis
    unfolding parseUuid_def
    using m by (simp add: hexField_toHex del: toHex.simps hexField.simps)
qed

text \<open>Reading back the text of a UUID gives the UUID.\<close>

lemma parseUuid_toString: "parseUuid (QUuid_toString u) = Some u"
proof -
  have b1: "unat (data1 u) < 16 ^ 8"
    using unsigned_less [of "data1 u", where 'a = nat] by simp
  have b2: "unat (data2 u) < 16 ^ 4"
    using unsigned_less [of "data2 u", where 'a = nat] by simp
  have b3: "unat (data3 u) < 16 ^ 4"
    using unsigned_less [of "data3 u", where 'a = nat] by simp
  have b4: "unat (data4 u) < 16 ^ 16"
    using unsigned_less [of "data4 u", where 'a = nat] by simp
  have b4a: "unat (data4 u) div 16 ^ 12 < 16 ^ 4"
    using b4 by (simp add: less_mult_imp_div_less)
  have join: "unat (data4 u) div 16 ^ 12 * 16 ^ 12 + unat (data4 u) mod 16 ^ 12 = unat (data4 u)"
    by (rule div_mult_mod_eq)
  have "parseUuid (QUuid_toString u)
          = Some \<lparr>data1 = of_nat (unat (data1 u)), data2 = of_nat (unat (data2 u)),
                   data3 = of_nat (unat (data3 u)), data4 = of_nat (unat (data4 u))\<rparr>"
    unfolding QUuid_toString_def
    by (simp only: parseUuid_groups [OF b1 b2 b3 b4a] join)
  then show ?thesis by simp
qed

lemma QUuid_fromString_toString: "QUuid_fromString (QUuid_toString u) = u"
  by (simp add: QUuid_fromString_def parseUuid_toString)

lemma parseUuid_empty: "parseUuid [] = None"
  by (simp add: parseUuid_def numeral_eq_Suc)

lemma toHex_numeral:
  "toHex (numeral v) k =
     toHexDigit ((k div 16 ^ pred_numeral v) mod 16) # toHex (pred_numeral v) k"
  using toHex.simps(2) [of "pred_numeral v" k] by (simp only: numeral_eq_Suc [of v])

lemma toHex_1: "toHex 1 k = [toHexDigit (k mod 16)]"
  using toHex.simps(2) [of 0 k] by simp

lemma exampleUuid_toString:
  "QUuid_toString exampleUuid = ''{1234abcd-00ff-4a5b-8899-aabbccddeeff}''"
  by (simp add: QUuid_toString_def exampleUuid_def toHex_numeral toHex_1 toHexDigit_def)

text \<open>The conversions of \<^verbatim>\<open>Node::restore\<close>, read field by field.\<close>

lemma QUuid_fromString_id_field:
  "QUuid_fromString (toString (jsonValue json ''id'')) = persistedId json"
  by (simp add: jsonValue_def persistedId_def QUuid_fromString_def parseUuid_empty
        split: option.splits QJsonValue.splits)

lemma toDouble_position_field:
  "toDouble (jsonValue (toObject (jsonValue json ''position'')) axis)
     = persistedCoordinate json axis"
  by (simp add: jsonValue_def persistedCoordinate_def split: option.splits QJsonValue.splits)

lemma toObject_model_field:
  "toObject (jsonValue json ''model'') = persistedModel json"
  by (simp add: jsonValue_def persistedModel_def split: option.splits QJsonValue.splits)

lemma hexField_numeral:
  "hexField (numeral v) acc [] = None"
  "hexField (numeral v) acc (c # cs) =
     (case fromHex c of
        None \<Rightarrow> None
      | Some d \<Rightarrow> hexField (pred_numeral v) (acc * 16 + d) cs)"
  using hexField.simps(2) [of "pred_numeral v" acc]
    hexField.simps(3) [of "pred_numeral v" acc c cs]
  by (simp_all only: numeral_eq_Suc [of v])

lemma hexField_1:
  "hexField 1 acc [] = None"
  "hexField 1 acc (c # cs) =
     (case fromHex c of None \<Rightarrow> None | Some d \<Rightarrow> Some (acc * 16 + d, cs))"
  using hexField.simps(2) [of 0 acc] hexField.simps(3) [of 0 acc c cs]
  by (simp_all split: option.splits)

lemma persistedId_persistedNode: "persistedId persistedNode = persistedUuid"
  by (simp add: persistedId_def persistedNode_def persistedUuid_def parseUuid_def
        hexField_numeral hexField_1 fromHex_def)

section \<open>Properties of the node's loops\<close>

lemma recalculateVisuals_attached:
  "nodeGraphicsObject n = Some g \<Longrightarrow> recalculateVisuals n = Inr visualsCascade"
  by (simp add: recalculateVisuals_def visualsCascade_def)

lemma recalculateVisuals_Inr:
  "recalculateVisuals n = Inr calls \<Longrightarrow> calls = visualsCascade"
  by (auto simp: recalculateVisuals_def visualsCascade_def split: option.splits)

lemma geometryStale_append:
  "geometryStale b (xs @ ys) = geometryStale (geometryStale b xs) ys"
  by (induction b xs rule: geometryStale.induct) simp_all

lemma geometryStale_visualsCascade [simp]: "geometryStale b visualsCascade = False"
  by (simp add: visualsCascade_def)

lemma recalculateSize_in_visualsCascade [simp]: "Geometry_recalculateSize \<in> set visualsCascade"
  by (simp add: visualsCascade_def)

lemma geometryStale_moves [simp]:
  "geometryStale b (map (\<lambda>pair. ConnectionGraphics_move (f pair)) conn_set) = b"
  by (induction conn_set) simp_all

lemma geometryStale_moves_concat [simp]:
  "geometryStale b (concat (map (\<lambda>conn_set. map (\<lambda>pair. ConnectionGraphics_move (f pair)) conn_set) entries)) = b"
  by (induction entries) (simp_all add: geometryStale_append)

lemma killConnections_drop:
  "0 \<le> index \<Longrightarrow>
   (killConnections entries index :: error + ('d, 'r) Call list) =
     Inr (concat (map (map (\<lambda>c. Emit_killConnection (snd c))) (drop (nat index) entries)))"
proof (induction entries index rule: killConnections.induct)
  case (1 entries index)
  show ?case
  proof (cases "index < int (length entries)")
    case True
    then have lt: "nat index < length entries" using "1.prems" by linarith
    have ih: "(killConnections entries (index + 1) :: error + ('d, 'r) Call list) =
        Inr (concat (map (map (\<lambda>c. Emit_killConnection (snd c))) (drop (nat (index + 1)) entries)))"
      using "1.IH" True "1.prems" by simp
    have d: "drop (nat index) entries = entries ! nat index # drop (nat (index + 1)) entries"
      using Cons_nth_drop_Suc [OF lt] "1.prems" by (simp add: nat_add_distrib)
    show ?thesis
      using True "1.prems"
      by (subst killConnections.simps) (simp add: ih d)
  next
    case False
    then show ?thesis
      using "1.prems" by (subst killConnections.simps) simp
  qed
qed

lemma killConnections_negative:
  "index < 0 \<Longrightarrow> killConnections entries index = Inl IndexOutOfRange"
  by (subst killConnections.simps) simp

lemma gatherNodeData_complete:
  assumes "\<forall>c \<in> set conns. getNode (connectionAt E (snd c)) Out \<noteq> None"
  shows "gatherNodeData E conns = Inr (map (upstreamCall E) conns, map (upstreamValue E) conns)"
  using assms
proof (induction conns)
  case Nil
  show ?case by simp
next
  case (Cons c conns)
  from Cons.prems obtain outNode where o: "getNode (connectionAt E (snd c)) Out = Some outNode"
    by auto
  from Cons.prems have "\<forall>c \<in> set conns. getNode (connectionAt E (snd c)) Out \<noteq> None"
    by simp
  then have ih: "gatherNodeData E conns = Inr (map (upstreamCall E) conns, map (upstreamValue E) conns)"
    by (rule Cons.IH)
  show ?case
    by (simp add: o ih Let_def upstreamCall_def upstreamValue_def split: option.splits)
qed

lemma gatherNodeData_error:
  "gatherNodeData E conns = Inl e \<Longrightarrow> e = NullNode"
  by (induction conns arbitrary: e)
     (auto simp: Let_def split: option.splits sum.splits prod.splits)

lemma connections_error:
  "connections st portType i = Inl e \<Longrightarrow> e = IndexOutOfRange"
  by (auto simp: connections_def Let_def split: if_splits)

lemma propagateData_attached:
  assumes "nodeGraphicsObject n \<noteq> None"
  shows "propagateData E i n \<noteq> Inl NullGraphicsObject"
proof
  assume f: "propagateData E i n = Inl NullGraphicsObject"
  show False
  proof (cases "connections (nodeState n) In i")
    case (Inl e)
    then show False using f connections_error [OF Inl] by (simp add: propagateData_def)
  next
    case (Inr conns)
    show False
    proof (cases "gatherNodeData E conns")
      case (Inl e)
      then show False
        using f Inr gatherNodeData_error [OF Inl] by (simp add: propagateData_def)
    next
      case r: (Inr r)
      then show False
        using f Inr assms
        by (auto simp: propagateData_def recalculateVisuals_def split: prod.splits)
    qed
  qed
qed

lemma propagateData_detached:
  assumes "nodeGraphicsObject n = None"
  shows "isl (propagateData E i n)"
  using assms
  by (simp add: propagateData_def split: sum.splits prod.splits)

lemma kills_droppedConnections:
  "concat (map (map (\<lambda>c. Emit_killConnection (snd c)))
     (drop (nat (nPorts E portType)) (getEntries st portType)))
   = map Emit_killConnection (droppedConnections E st portType)"
  by (simp add: droppedConnections_def map_concat comp_def)

lemma length_resize: "length (resize k entries) = k"
  by (simp add: resize_def)

text \<open>The example node, run.\<close>

lemma exampleNode_propagateData:
  "propagateData exampleEnv 0 exampleNode =
     Inr [Upstream_outData 10 0, Upstream_outData 11 1, Model_setInData [10, 112] 0,
          Graphics_setGeometryChanged, Geometry_recalculateSize, Graphics_update,
          Graphics_moveConnections,
          Graphics_setGeometryChanged, Geometry_recalculateSize, Graphics_update,
          Graphics_moveConnections]"
  by (simp add: propagateData_def recalculateVisuals_def exampleNode_def exampleState_def
        exampleEnv_def exampleConnection_def connections_def getEntries_def)

lemma exampleNode_killForPortTypes:
  "killForPortTypes exampleEnv exampleState [In, Out] =
     Inr [Emit_killConnection 3, Emit_killConnection 5, Emit_killConnection 6]"
proof -
  have one: "(0::int) \<le> 1" by simp
  show ?thesis
    by (simp add: killConnections_drop [OF one] exampleEnv_def exampleState_def getEntries_def)
qed

lemma exampleNode_onPortCountChanged:
  "onPortCountChanged exampleEnv exampleNode =
     Inr ([Emit_killConnection 3, Emit_killConnection 5, Emit_killConnection 6,
           Geometry_updatePortCount,
           Graphics_setGeometryChanged, Geometry_recalculateSize, Graphics_update,
           Graphics_moveConnections],
          exampleNode\<lparr>nodeState :=
            exampleState\<lparr>inConnections := [[(QUuid_null, 0), (exampleUuid, 1)]],
                          outConnections := [[(QUuid_null, 4)]]\<rparr>\<rparr>)"
proof -
  have st: "nodeState exampleNode = exampleState" by (simp add: exampleNode_def)
  have up: "updatePortCount (nPorts exampleEnv In) (nPorts exampleEnv Out) exampleState =
      exampleState\<lparr>inConnections := [[(QUuid_null, 0), (exampleUuid, 1)]],
                    outConnections := [[(QUuid_null, 4)]]\<rparr>"
    by (simp add: updatePortCount_def resize_def exampleEnv_def exampleState_def)
  show ?thesis
    by (simp add: onPortCountChanged_def st exampleNode_killForPortTypes up
          recalculateVisuals_def del: killForPortTypes.simps) (simp add: exampleNode_def)
qed

section \<open>Data propagation\<close>

text \<open>
  Claim C1, as amended. For a node whose graphics object is attached and an input port
  index \<open>i\<close> of it at which every registered connection has a node at its \<^verbatim>\<open>Out\<close>
  end, \<^verbatim>\<open>Node::propagateData(i)\<close> fetches, connection by connection in the order of
  the enumeration, the output of the upstream node at the connection's output port
  (\<open>upstreamCall\<close>), passes it through the connection's converter exactly when there is
  one (\<open>upstreamValue\<close>), hands the list of these values to the data model with
  \<^verbatim>\<open>setInData(list, i)\<close>, and only then runs the cascade \<^verbatim>\<open>setGeometryChanged\<close>,
  \<^verbatim>\<open>recalculateSize\<close>, \<^verbatim>\<open>update\<close>, \<^verbatim>\<open>moveConnections\<close> (twice: once in line, once
  through \<^verbatim>\<open>recalculateVisuals\<close>).
\<close>

theorem propagateData_calls:
  assumes "connections (nodeState n) In i = Inr conns"
    and "\<forall>c \<in> set conns. getNode (connectionAt E (snd c)) Out \<noteq> None"
    and "nodeGraphicsObject n = Some g"
  shows "propagateData E i n =
           Inr (map (upstreamCall E) conns
                @ [Model_setInData (map (upstreamValue E) conns) i]
                @ visualsCascade @ visualsCascade)"
  using assms(1,3)
  by (simp add: propagateData_def gatherNodeData_complete [OF assms(2)]
        recalculateVisuals_attached [OF assms(3)] visualsCascade_def)

text \<open>
  At the first input port of the example node: connection 0 delivers the output \<open>10\<close> of
  node 10 unchanged, connection 1 the output \<open>12\<close> of node 11 through its converter.
\<close>

theorem propagateData_calls_witness:
  "propagateData exampleEnv 0 exampleNode =
     Inr [Upstream_outData 10 0, Upstream_outData 11 1, Model_setInData [10, 112] 0,
          Graphics_setGeometryChanged, Geometry_recalculateSize, Graphics_update,
          Graphics_moveConnections,
          Graphics_setGeometryChanged, Geometry_recalculateSize, Graphics_update,
          Graphics_moveConnections]"
  using propagateData_calls [of exampleNode 0 "[(QUuid_null, 0), (exampleUuid, 1)]" exampleEnv
      "\<lparr>pos = (3, 4)\<rparr>"]
  by (simp add: exampleNode_def exampleState_def exampleEnv_def exampleConnection_def
        connections_def getEntries_def upstreamCall_def upstreamValue_def visualsCascade_def)

text \<open>
  The claim as stated, for every input port index of a node, fails: on a node that has no
  graphics object yet, \<^verbatim>\<open>propagateData\<close> hands the data to the model and then calls
  \<^verbatim>\<open>setGeometryChanged\<close> through the null pointer, so that no cascade follows.
\<close>

theorem propagateData_detached_fails:
  "propagateData exampleEnv 1 detachedNode = Inl NullGraphicsObject"
  by (simp add: propagateData_def detachedNode_def exampleNode_def
        exampleState_def exampleEnv_def exampleConnection_def connections_def getEntries_def)

text \<open>
  Why the theorem asks for a node at the \<^verbatim>\<open>Out\<close> end of each connection: the loop
  calls \<^verbatim>\<open>nodeDataModel()\<close> on what \<^verbatim>\<open>getNode(PortType::Out)\<close> returned without a
  check, and for a connection without such a node there is no upstream value to speak of.
\<close>

lemma propagateData_dangling:
  "propagateData exampleEnv 0 danglingNode = Inl NullNode"
  by (simp add: propagateData_def danglingNode_def exampleNode_def
        exampleState_def exampleEnv_def exampleConnection_def connections_def getEntries_def)

section \<open>Restoring a node\<close>

text \<open>
  Claim C2, as amended. For every JSON object and every node whose graphics object is
  attached, \<^verbatim>\<open>Node::restore\<close> does not fail. The node's id becomes the UUID that the
  \<open>id\<close> field spells, and the null UUID when the field is missing, is not a string or is
  not the text of a UUID; each coordinate of the graphics object's position becomes the
  number in \<open>x\<close> or \<open>y\<close> of the \<open>position\<close> object, and \<open>0\<close> when \<open>position\<close> or the
  field is missing or of another type; the data model's \<^verbatim>\<open>restore\<close> is called with the
  \<open>model\<close> object, the empty object when that field is missing or not an object.
\<close>

theorem Node_restore_coerces:
  assumes "nodeGraphicsObject n = Some g"
  shows "Node_restore json n =
           Inr ([Graphics_setPos (persistedCoordinate json ''x'', persistedCoordinate json ''y''),
                 Model_restore (persistedModel json)],
                n\<lparr>uid := persistedId json,
                  nodeGraphicsObject :=
                    Some (g\<lparr>pos := (persistedCoordinate json ''x'',
                                    persistedCoordinate json ''y'')\<rparr>)\<rparr>)"
  using assms
  by (simp add: Node_restore_def Let_def QUuid_fromString_id_field toDouble_position_field
        toObject_model_field)

text \<open>
  At a JSON object whose \<open>id\<close> is a number, whose \<open>x\<close> is a string and which has no
  \<open>model\<close>: the null UUID, the coordinate \<open>0\<close> and the empty model object. And at the
  persisted example node, which is well formed.
\<close>

theorem Node_restore_coerces_witness:
  "Node_restore
     [(''id'', JDouble 7),
      (''position'', JObject [(''x'', JString ''left''), (''y'', JDouble 9)])]
     exampleNode =
     Inr ([Graphics_setPos (0, 9), Model_restore []],
          exampleNode\<lparr>uid := QUuid_null, nodeGraphicsObject := Some \<lparr>pos = (0, 9)\<rparr>\<rparr>)
   \<and> Node_restore persistedNode exampleNode =
     Inr ([Graphics_setPos (30, 40), Model_restore [(''name'', JString ''adder'')]],
          exampleNode\<lparr>uid := persistedUuid, nodeGraphicsObject := Some \<lparr>pos = (30, 40)\<rparr>\<rparr>)"
proof -
  have a: "nodeGraphicsObject exampleNode = Some \<lparr>pos = (3, 4)\<rparr>"
    by (simp add: exampleNode_def)
  have p: "persistedCoordinate persistedNode ''x'' = 30"
    "persistedCoordinate persistedNode ''y'' = 40"
    "persistedModel persistedNode = [(''name'', JString ''adder'')]"
    by (simp_all add: persistedCoordinate_def persistedModel_def persistedNode_def)
  show ?thesis
    using Node_restore_coerces [OF a,
        of "[(''id'', JDouble 7),
             (''position'', JObject [(''x'', JString ''left''), (''y'', JDouble 9)])]"]
      Node_restore_coerces [OF a, of persistedNode]
    by (simp add: persistedId_persistedNode p)
       (simp add: persistedId_def persistedCoordinate_def persistedModel_def)
qed

text \<open>
  The claim as stated, for every JSON object and with no condition on the node, fails: on
  a node that has no graphics object yet, \<^verbatim>\<open>restore\<close> calls \<^verbatim>\<open>setPos\<close> through the null
  pointer, also when the JSON is well formed.
\<close>

theorem Node_restore_detached_fails:
  "Node_restore [(''id'', JString ''{1234abcd-00ff-4a5b-8899-aabbccddeeff}'')] detachedNode
     = Inl NullGraphicsObject"
  by (simp add: Node_restore_def detachedNode_def)

section \<open>Persistence\<close>

text \<open>
  Claim C3. For a node whose graphics object is attached, \<^verbatim>\<open>Node::save\<close> returns the
  JSON object with exactly three fields: \<open>id\<close>, the text of the node's UUID;
  \<open>model\<close>, the object that the data model's \<^verbatim>\<open>save()\<close> produced; and \<open>position\<close>,
  an object with the fields \<open>x\<close> and \<open>y\<close> holding the two coordinates of the graphics
  object's position.
\<close>

theorem Node_save_fields:
  assumes "nodeGraphicsObject n = Some g"
  shows "Node_save E n =
           Inr [(''id'', JString (QUuid_toString (uid n))),
                (''model'', JObject (modelSave E)),
                (''position'',
                   JObject [(''x'', JDouble (fst (pos g))), (''y'', JDouble (snd (pos g)))])]"
  using assms by (simp add: Node_save_def)

theorem Node_save_fields_witness:
  "Node_save exampleEnv exampleNode =
     Inr [(''id'', JString ''{1234abcd-00ff-4a5b-8899-aabbccddeeff}''),
          (''model'', JObject [(''name'', JString ''adder'')]),
          (''position'', JObject [(''x'', JDouble 3), (''y'', JDouble 4)])]"
  using Node_save_fields [of exampleNode "\<lparr>pos = (3, 4)\<rparr>" exampleEnv]
  by (simp add: exampleNode_def exampleEnv_def exampleUuid_toString)

section \<open>The geometry invariant\<close>

text \<open>
  Claim C4. Each of \<^verbatim>\<open>propagateData\<close>, \<^verbatim>\<open>onNodeSizeUpdated\<close> and
  \<^verbatim>\<open>onPortCountChanged\<close>, whenever it returns, has called \<^verbatim>\<open>recalculateSize\<close>, and has
  called it after its last call that changes the data (\<^verbatim>\<open>setInData\<close>), the widget size
  (\<^verbatim>\<open>adjustSize\<close>) or the port count (\<^verbatim>\<open>updatePortCount\<close>): whatever the cache was
  before, it is not stale when the operation returns.
\<close>

theorem geometry_recalculated:
  "(\<forall>calls. propagateData E i n = Inr calls \<longrightarrow>
       Geometry_recalculateSize \<in> set calls \<and> \<not> geometryStale b calls)
   \<and> Geometry_recalculateSize \<in> set (fst (onNodeSizeUpdated E n))
   \<and> \<not> geometryStale b (fst (onNodeSizeUpdated E n))
   \<and> (\<forall>calls n'. onPortCountChanged E n = Inr (calls, n') \<longrightarrow>
       Geometry_recalculateSize \<in> set calls \<and> \<not> geometryStale b calls)"
proof (intro conjI allI impI)
  fix calls
  assume p: "propagateData E i n = Inr calls"
  then obtain pre where c: "calls = pre @ visualsCascade"
    by (auto simp: propagateData_def split: sum.splits prod.splits option.splits
          dest!: recalculateVisuals_Inr)
  show "Geometry_recalculateSize \<in> set calls" using c by simp
  show "\<not> geometryStale b calls" using c by (simp add: geometryStale_append)
next
  show "Geometry_recalculateSize \<in> set (fst (onNodeSizeUpdated E n))"
    by (simp add: onNodeSizeUpdated_def)
  show "\<not> geometryStale b (fst (onNodeSizeUpdated E n))"
    by (simp add: onNodeSizeUpdated_def geometryStale_append)
next
  fix calls n'
  assume p: "onPortCountChanged E n = Inr (calls, n')"
  then obtain pre where c: "calls = pre @ visualsCascade"
    by (auto simp: onPortCountChanged_def Let_def split: sum.splits
          dest!: recalculateVisuals_Inr)
  show "Geometry_recalculateSize \<in> set calls" using c by simp
  show "\<not> geometryStale b calls" using c by (simp add: geometryStale_append)
qed

text \<open>The three operations return on the example node, with a cache that was stale.\<close>

theorem geometry_recalculated_witness:
  "(\<exists>calls. propagateData exampleEnv 0 exampleNode = Inr calls
       \<and> Geometry_recalculateSize \<in> set calls \<and> \<not> geometryStale True calls)
   \<and> Geometry_recalculateSize \<in> set (fst (onNodeSizeUpdated exampleEnv exampleNode))
   \<and> \<not> geometryStale True (fst (onNodeSizeUpdated exampleEnv exampleNode))
   \<and> (\<exists>calls n'. onPortCountChanged exampleEnv exampleNode = Inr (calls, n')
       \<and> Geometry_recalculateSize \<in> set calls \<and> \<not> geometryStale True calls)"
  using geometry_recalculated [of exampleEnv 0 exampleNode True]
    exampleNode_propagateData exampleNode_onPortCountChanged
  by blast

section \<open>The graphics object pointer\<close>

text \<open>
  Claim C5. A freshly constructed node has no graphics object, and
  \<^verbatim>\<open>setGraphicsObject\<close> with a graphics object attaches it. While a graphics object is
  attached, none of \<^verbatim>\<open>save\<close>, \<^verbatim>\<open>restore\<close>, \<^verbatim>\<open>propagateData\<close>,
  \<^verbatim>\<open>reactToPossibleConnection\<close>, \<^verbatim>\<open>resetReactionToConnection\<close> and
  \<^verbatim>\<open>recalculateVisuals\<close> goes through a null graphics object pointer, and every
  operation that returns a node returns it with a graphics object attached. While none is
  attached, each of them does: \<^verbatim>\<open>propagateData\<close> never returns then, and stops at the
  null graphics object pointer whenever its loop over the connections got through.
\<close>

theorem graphics_object_pointer:
  fixes E :: "('d, 'r::zero) Env" and n :: "('r, 't) Node"
  shows
  "nodeGraphicsObject (snd (Node_new u E :: ('d, 'r) Call list \<times> ('r, 't) Node)) = None
   \<and> nodeGraphicsObject
        (snd (setGraphicsObject (Some g) n :: ('d, 'r) Call list \<times> ('r, 't) Node)) = Some g
   \<and> (nodeGraphicsObject n \<noteq> None \<longrightarrow>
        Node_save E n \<noteq> Inl NullGraphicsObject
      \<and> (Node_restore json n :: error + (('d, 'r) Call list \<times> ('r, 't) Node))
            \<noteq> Inl NullGraphicsObject
      \<and> propagateData E i n \<noteq> Inl NullGraphicsObject
      \<and> reactToPossibleConnection E portType dataType scenePoint n \<noteq> Inl NullGraphicsObject
      \<and> (resetReactionToConnection n :: error + (('d, 'r) Call list \<times> ('r, 't) Node))
            \<noteq> Inl NullGraphicsObject
      \<and> (recalculateVisuals n :: error + ('d, 'r) Call list) \<noteq> Inl NullGraphicsObject
      \<and> (\<forall>calls n'. Node_restore json n = Inr (calls :: ('d, 'r) Call list, n')
            \<longrightarrow> nodeGraphicsObject n' \<noteq> None)
      \<and> (\<forall>calls n'. reactToPossibleConnection E portType dataType scenePoint n = Inr (calls, n')
            \<longrightarrow> nodeGraphicsObject n' \<noteq> None)
      \<and> (\<forall>calls n'. resetReactionToConnection n = Inr (calls :: ('d, 'r) Call list, n')
            \<longrightarrow> nodeGraphicsObject n' \<noteq> None)
      \<and> (\<forall>calls n'. onDataUpdated E i n = Inr (calls, n') \<longrightarrow> nodeGraphicsObject n' \<noteq> None)
      \<and> nodeGraphicsObject (snd (onNodeSizeUpdated E n)) \<noteq> None
      \<and> (\<forall>calls n'. onPortCountChanged E n = Inr (calls, n')
            \<longrightarrow> nodeGraphicsObject n' \<noteq> None))
   \<and> (nodeGraphicsObject n = None \<longrightarrow>
        Node_save E n = Inl NullGraphicsObject
      \<and> (Node_restore json n :: error + (('d, 'r) Call list \<times> ('r, 't) Node))
            = Inl NullGraphicsObject
      \<and> isl (propagateData E i n)
      \<and> (\<forall>conns r. connections (nodeState n) In i = Inr conns
                    \<and> gatherNodeData E conns = Inr r
            \<longrightarrow> propagateData E i n = Inl NullGraphicsObject)
      \<and> reactToPossibleConnection E portType dataType scenePoint n = Inl NullGraphicsObject
      \<and> (resetReactionToConnection n :: error + (('d, 'r) Call list \<times> ('r, 't) Node))
            = Inl NullGraphicsObject
      \<and> (recalculateVisuals n :: error + ('d, 'r) Call list) = Inl NullGraphicsObject)"
proof (intro conjI impI allI)
  show "nodeGraphicsObject (snd (Node_new u E :: ('d, 'r) Call list \<times> ('r, 't) Node)) = None"
    by (simp add: Node_new_def)
  show "nodeGraphicsObject
          (snd (setGraphicsObject (Some g) n :: ('d, 'r) Call list \<times> ('r, 't) Node)) = Some g"
    by (simp add: setGraphicsObject_def)
next
  assume a: "nodeGraphicsObject n \<noteq> None"
  show "Node_save E n \<noteq> Inl NullGraphicsObject"
    using a by (auto simp: Node_save_def)
  show "(Node_restore json n :: error + (('d, 'r) Call list \<times> ('r, 't) Node))
          \<noteq> Inl NullGraphicsObject"
    using a by (auto simp: Node_restore_def Let_def)
  show "propagateData E i n \<noteq> Inl NullGraphicsObject"
    using a by (rule propagateData_attached)
  show "reactToPossibleConnection E portType dataType scenePoint n \<noteq> Inl NullGraphicsObject"
    using a by (auto simp: reactToPossibleConnection_def)
  show "(resetReactionToConnection n :: error + (('d, 'r) Call list \<times> ('r, 't) Node))
          \<noteq> Inl NullGraphicsObject"
    using a by (auto simp: resetReactionToConnection_def)
  show "(recalculateVisuals n :: error + ('d, 'r) Call list) \<noteq> Inl NullGraphicsObject"
    using a by (auto simp: recalculateVisuals_def)
  show "nodeGraphicsObject (snd (onNodeSizeUpdated E n)) \<noteq> None"
    using a by (simp add: onNodeSizeUpdated_def)
next
  fix calls :: "('d, 'r) Call list" and n' :: "('r, 't) Node"
  assume a: "nodeGraphicsObject n \<noteq> None"
  {
    assume "Node_restore json n = Inr (calls, n')"
    then show "nodeGraphicsObject n' \<noteq> None"
      using a by (auto simp: Node_restore_def Let_def split: option.splits)
  }
  {
    assume "reactToPossibleConnection E portType dataType scenePoint n = Inr (calls, n')"
    then show "nodeGraphicsObject n' \<noteq> None"
      using a by (auto simp: reactToPossibleConnection_def Let_def split: option.splits)
  }
  {
    assume "resetReactionToConnection n = Inr (calls, n')"
    then show "nodeGraphicsObject n' \<noteq> None"
      using a by (auto simp: resetReactionToConnection_def Let_def split: option.splits)
  }
  {
    assume "onDataUpdated E i n = Inr (calls, n')"
    then show "nodeGraphicsObject n' \<noteq> None"
      using a by (auto simp: onDataUpdated_def Let_def split: sum.splits)
  }
  {
    assume "onPortCountChanged E n = Inr (calls, n')"
    then show "nodeGraphicsObject n' \<noteq> None"
      using a by (auto simp: onPortCountChanged_def Let_def split: sum.splits)
  }
next
  assume a: "nodeGraphicsObject n = None"
  show "Node_save E n = Inl NullGraphicsObject"
    using a by (simp add: Node_save_def)
  show "(Node_restore json n :: error + (('d, 'r) Call list \<times> ('r, 't) Node))
          = Inl NullGraphicsObject"
    using a by (simp add: Node_restore_def)
  show "isl (propagateData E i n)"
    using a by (rule propagateData_detached)
  show "reactToPossibleConnection E portType dataType scenePoint n = Inl NullGraphicsObject"
    using a by (simp add: reactToPossibleConnection_def)
  show "(resetReactionToConnection n :: error + (('d, 'r) Call list \<times> ('r, 't) Node))
          = Inl NullGraphicsObject"
    using a by (simp add: resetReactionToConnection_def)
  show "(recalculateVisuals n :: error + ('d, 'r) Call list) = Inl NullGraphicsObject"
    using a by (simp add: recalculateVisuals_def)
next
  fix conns r
  assume a: "nodeGraphicsObject n = None"
    and b: "connections (nodeState n) In i = Inr conns \<and> gatherNodeData E conns = Inr r"
  show "propagateData E i n = Inl NullGraphicsObject"
    using a b by (simp add: propagateData_def split: prod.splits)
qed

text \<open>
  On the example node before its graphics object is attached (each operation stops at
  the null pointer) and after \<^verbatim>\<open>setGraphicsObject\<close> (none does).
\<close>

theorem graphics_object_pointer_witness:
  "Node_save exampleEnv detachedNode = Inl NullGraphicsObject
   \<and> (Node_restore [] detachedNode
        :: error + ((int, int) Call list \<times> (int, string) Node)) = Inl NullGraphicsObject
   \<and> propagateData exampleEnv 0 detachedNode = Inl NullGraphicsObject
   \<and> reactToPossibleConnection exampleEnv In ''number'' (8, 8) detachedNode
        = Inl NullGraphicsObject
   \<and> (resetReactionToConnection detachedNode
        :: error + ((int, int) Call list \<times> (int, string) Node)) = Inl NullGraphicsObject
   \<and> (recalculateVisuals detachedNode :: error + (int, int) Call list)
        = Inl NullGraphicsObject
   \<and> snd (setGraphicsObject (Some \<lparr>pos = (3, 4)\<rparr>) detachedNode
            :: (int, int) Call list \<times> (int, string) Node) = exampleNode
   \<and> Node_save exampleEnv exampleNode \<noteq> Inl NullGraphicsObject
   \<and> (Node_restore [] exampleNode
        :: error + ((int, int) Call list \<times> (int, string) Node)) \<noteq> Inl NullGraphicsObject
   \<and> propagateData exampleEnv 0 exampleNode \<noteq> Inl NullGraphicsObject
   \<and> reactToPossibleConnection exampleEnv In ''number'' (8, 8) exampleNode
        \<noteq> Inl NullGraphicsObject
   \<and> (resetReactionToConnection exampleNode
        :: error + ((int, int) Call list \<times> (int, string) Node)) \<noteq> Inl NullGraphicsObject
   \<and> (recalculateVisuals exampleNode :: error + (int, int) Call list)
        \<noteq> Inl NullGraphicsObject"
proof -
  have d: "nodeGraphicsObject detachedNode = None"
    by (simp add: detachedNode_def)
  have a: "nodeGraphicsObject exampleNode \<noteq> None"
    by (simp add: exampleNode_def)
  have c: "connections (nodeState detachedNode) In 0 = Inr [(QUuid_null, 0), (exampleUuid, 1)]"
    by (simp add: detachedNode_def exampleNode_def exampleState_def connections_def
          getEntries_def)
  have r: "gatherNodeData exampleEnv [(QUuid_null, 0), (exampleUuid, 1)]
             = Inr ([Upstream_outData 10 0, Upstream_outData 11 1], [10, 112])"
    by (simp add: exampleEnv_def exampleConnection_def)
  have s: "snd (setGraphicsObject (Some \<lparr>pos = (3, 4)\<rparr>) detachedNode
                 :: (int, int) Call list \<times> (int, string) Node) = exampleNode"
    by (simp add: setGraphicsObject_def detachedNode_def exampleNode_def)
  show ?thesis
    using graphics_object_pointer [where E = exampleEnv and n = detachedNode and i = 0
        and json = "[]" and portType = In and dataType = "''number''" and scenePoint = "(8, 8)"]
      graphics_object_pointer [where E = exampleEnv and n = exampleNode and i = 0
        and json = "[]" and portType = In and dataType = "''number''" and scenePoint = "(8, 8)"]
      d a c r s
    by blast
qed

section \<open>The node's identifier\<close>




section \<open>Port count changes\<close>

text \<open>
  Claim C7, as amended. On a node whose graphics object is attached, with port counts of
  the model that are not negative, \<^verbatim>\<open>Node::onPortCountChanged\<close> emits
  \<^verbatim>\<open>killConnection\<close> for the connections registered at the input port indices from the
  model's new input count on, then for those at the output port indices from the new
  output count on (\<open>droppedConnections\<close>: each once for each place it is registered at,
  none from a port index below the new count), then sets the node state's port counts to
  the model's \<^verbatim>\<open>nPorts\<close>, tells the geometry, and runs the cascade of
  \<^verbatim>\<open>recalculateVisuals\<close>.
\<close>

theorem onPortCountChanged_calls:
  assumes "nodeGraphicsObject n = Some g"
    and "0 \<le> nPorts E In" and "0 \<le> nPorts E Out"
  shows "onPortCountChanged E n =
           Inr (map Emit_killConnection (droppedConnections E (nodeState n) In)
                @ map Emit_killConnection (droppedConnections E (nodeState n) Out)
                @ [Geometry_updatePortCount] @ visualsCascade,
                n\<lparr>nodeState := updatePortCount (nPorts E In) (nPorts E Out) (nodeState n)\<rparr>)
         \<and> length (inConnections (updatePortCount (nPorts E In) (nPorts E Out) (nodeState n)))
             = nat (nPorts E In)
         \<and> length (outConnections (updatePortCount (nPorts E In) (nPorts E Out) (nodeState n)))
             = nat (nPorts E Out)"
proof -
  have k: "killForPortTypes E (nodeState n) [In, Out] =
      Inr (map Emit_killConnection (droppedConnections E (nodeState n) In)
           @ map Emit_killConnection (droppedConnections E (nodeState n) Out))"
    by (simp add: killConnections_drop [OF assms(2)] killConnections_drop [OF assms(3)]
          kills_droppedConnections)
  have v: "recalculateVisuals
      (n\<lparr>nodeState := updatePortCount (nPorts E In) (nPorts E Out) (nodeState n)\<rparr>)
      = Inr visualsCascade"
    using assms(1) by (simp add: recalculateVisuals_def visualsCascade_def)
  have calls: "onPortCountChanged E n =
      Inr (map Emit_killConnection (droppedConnections E (nodeState n) In)
           @ map Emit_killConnection (droppedConnections E (nodeState n) Out)
           @ [Geometry_updatePortCount] @ visualsCascade,
           n\<lparr>nodeState := updatePortCount (nPorts E In) (nPorts E Out) (nodeState n)\<rparr>)"
    by (simp add: onPortCountChanged_def k v Let_def del: killForPortTypes.simps)
  have counts:
    "length (inConnections (updatePortCount (nPorts E In) (nPorts E Out) (nodeState n)))
       = nat (nPorts E In)"
    "length (outConnections (updatePortCount (nPorts E In) (nPorts E Out) (nodeState n)))
       = nat (nPorts E Out)"
    by (simp_all add: updatePortCount_def length_resize)
  show ?thesis
    using calls counts by (intro conjI)
qed

text \<open>
  The example node has two input and two output ports and a model that now has one of
  each: the connection at input port 1 and the two at output port 1 are killed, those at
  the ports 0 are not.
\<close>

theorem onPortCountChanged_calls_witness:
  "onPortCountChanged exampleEnv exampleNode =
     Inr ([Emit_killConnection 3, Emit_killConnection 5, Emit_killConnection 6,
           Geometry_updatePortCount,
           Graphics_setGeometryChanged, Geometry_recalculateSize, Graphics_update,
           Graphics_moveConnections],
          exampleNode\<lparr>nodeState :=
            exampleState\<lparr>inConnections := [[(QUuid_null, 0), (exampleUuid, 1)]],
                          outConnections := [[(QUuid_null, 4)]]\<rparr>\<rparr>)"
  using onPortCountChanged_calls [of exampleNode "\<lparr>pos = (3, 4)\<rparr>" exampleEnv]
  by (simp add: exampleNode_def exampleEnv_def exampleState_def droppedConnections_def
        getEntries_def updatePortCount_def resize_def visualsCascade_def)

text \<open>
  The claim as stated, with no condition on the node, fails: on a node that has no
  graphics object yet the signals are emitted and the port counts set, and then
  \<^verbatim>\<open>recalculateVisuals\<close> calls \<^verbatim>\<open>setGeometryChanged\<close> through the null pointer.
\<close>

theorem onPortCountChanged_detached_fails:
  "onPortCountChanged exampleEnv detachedNode = Inl NullGraphicsObject"
proof -
  have st: "nodeState detachedNode = exampleState"
    by (simp add: detachedNode_def exampleNode_def)
  show ?thesis
    by (simp add: onPortCountChanged_def st exampleNode_killForPortTypes recalculateVisuals_def
          del: killForPortTypes.simps) (simp add: detachedNode_def)
qed

section \<open>Saving and restoring\<close>

text \<open>
  Claim C8. For a node whose graphics object is attached, restoring the JSON object that
  \<^verbatim>\<open>save\<close> produced into the same node leaves the node as it was, its id and the
  position of its graphics object in particular; the graphics object is sent its own
  position and the data model is handed back what its \<^verbatim>\<open>save()\<close> produced.
\<close>

theorem Node_restore_save:
  assumes "nodeGraphicsObject n = Some g"
  shows "\<exists>json. Node_save E n = Inr json \<and>
           Node_restore json n =
             Inr ([Graphics_setPos (pos g), Model_restore (modelSave E)], n)"
proof -
  have g: "g\<lparr>pos := pos g\<rparr> = g" by simp
  have n: "n\<lparr>uid := uid n, nodeGraphicsObject := Some g\<rparr> = n"
    using assms by simp
  show ?thesis
    using assms
    by (simp add: Node_save_def Node_restore_def jsonValue_def
          QUuid_fromString_toString g n)
qed

theorem Node_restore_save_witness:
  "\<exists>json. Node_save exampleEnv exampleNode = Inr json \<and>
     Node_restore json exampleNode =
       Inr ([Graphics_setPos (3, 4), Model_restore [(''name'', JString ''adder'')]],
            exampleNode)"
  using Node_restore_save [of exampleNode "\<lparr>pos = (3, 4)\<rparr>" exampleEnv]
  by (simp add: exampleNode_def exampleEnv_def)

section \<open>Data updates of the model\<close>

text \<open>
  Claim C9. For an output port index of the node, \<^verbatim>\<open>Node::onDataUpdated(index)\<close> fetches
  the model's \<^verbatim>\<open>outData(index)\<close> once, calls \<^verbatim>\<open>propagateData\<close> with that value on each
  connection registered at \<open>(Out, index)\<close>, in the order of the enumeration, makes no
  other call, and leaves the node as it was.
\<close>

theorem onDataUpdated_calls:
  assumes "connections (nodeState n) Out index = Inr conns"
  shows "onDataUpdated E index n =
           Inr (Model_outData index
                  # map (\<lambda>c. Connection_propagateData (snd c) (outData E index)) conns,
                n)"
  using assms by (simp add: onDataUpdated_def)

theorem onDataUpdated_calls_witness:
  "onDataUpdated exampleEnv 1 exampleNode =
     Inr ([Model_outData 1, Connection_propagateData 5 41, Connection_propagateData 6 41],
          exampleNode)"
  using onDataUpdated_calls [of exampleNode 1 "[(exampleUuid, 5), (QUuid_null, 6)]" exampleEnv]
  by (simp add: exampleNode_def exampleState_def exampleEnv_def connections_def getEntries_def)

end
